theory Spec2Isabelle
  imports Complex_Main "HOL-Library.Multiset" "HOL-Library.AList"
begin

section \<open>JavaScript values\<close>

text \<open>
  A JavaScript number is modelled as \<open>NaN\<close> or as the real number a finite double denotes.
  The program divides a difference of millisecond timestamps by the milliseconds of a day
  and compares, floors and takes remainders of the result; infinities do not arise, and the
  rounding of the one division is not modelled.
\<close>

datatype number = NaN | Num real

fun ge :: "number \<Rightarrow> number \<Rightarrow> bool" where
  "ge (Num a) (Num b) = (b \<le> a)"
| "ge _ _ = False"

fun minus_num :: "number \<Rightarrow> number \<Rightarrow> number" where
  "minus_num (Num a) (Num b) = Num (a - b)"
| "minus_num _ _ = NaN"

fun times_num :: "number \<Rightarrow> number \<Rightarrow> number" where
  "times_num (Num a) (Num b) = Num (a * b)"
| "times_num _ _ = NaN"

fun divide_num :: "number \<Rightarrow> real \<Rightarrow> number" where
  "divide_num (Num a) d = Num (a / d)"
| "divide_num NaN d = NaN"

text \<open>The operator \<open>%\<close> on finite numbers with a nonzero divisor: the remainder takes the
  sign of the dividend.\<close>

definition trunc :: "real \<Rightarrow> int" where
  "trunc r = (if r < 0 then \<lceil>r\<rceil> else \<lfloor>r\<rfloor>)"

definition js_rem :: "real \<Rightarrow> real \<Rightarrow> real" where
  "js_rem x y = x - y * of_int (trunc (x / y))"

subsection \<open>Strings\<close>

definition digit_char :: "nat \<Rightarrow> char" where
  "digit_char d = ''0123456789'' ! d"

fun string_of_nat :: "nat \<Rightarrow> string" where
  "string_of_nat n =
     (if n < 10 then [digit_char n] else string_of_nat (n div 10) @ [digit_char (n mod 10)])"

declare string_of_nat.simps [simp del]

text \<open>Template interpolation of an integral number.\<close>

definition string_of_int :: "int \<Rightarrow> string" where
  "string_of_int i = (if i < 0 then ''-'' @ string_of_nat (nat (- i)) else string_of_nat (nat i))"

definition is_space :: "char \<Rightarrow> bool" where
  "is_space c = (c \<in> set [CHR '' '', CHR 0x09, CHR 0x0A, CHR 0x0B, CHR 0x0C, CHR 0x0D])"

definition trim :: "string \<Rightarrow> string" where
  "trim s = rev (dropWhile is_space (rev (dropWhile is_space s)))"

text \<open>\<open>parseInt\<close> with no radix: leading white space, an optional sign, then the longest
  run of digits, hexadecimal after a \<open>0x\<close> prefix and decimal otherwise; \<open>NaN\<close> when
  there is no digit.\<close>

definition is_digit :: "char \<Rightarrow> bool" where
  "is_digit c = (c \<in> set ''0123456789'')"

definition digit_value :: "char \<Rightarrow> nat" where
  "digit_value c = of_char c - 48"

definition decimal :: "string \<Rightarrow> nat" where
  "decimal ds = foldl (\<lambda>a c. 10 * a + digit_value c) 0 ds"

definition is_hex_digit :: "char \<Rightarrow> bool" where
  "is_hex_digit c = (c \<in> set ''0123456789abcdefABCDEF'')"

definition hex_digit_value :: "char \<Rightarrow> nat" where
  "hex_digit_value c =
     (if is_digit c then of_char c - 48
      else if c \<in> set ''abcdef'' then of_char c - 87 else of_char c - 55)"

definition hexadecimal :: "string \<Rightarrow> nat" where
  "hexadecimal ds = foldl (\<lambda>a c. 16 * a + hex_digit_value c) 0 ds"

definition parseInt :: "string \<Rightarrow> number" where
  "parseInt s =
     (let s1 = dropWhile is_space s;
          negative = (take 1 s1 = ''-'');
          s2 = (if take 1 s1 = ''-'' \<or> take 1 s1 = ''+'' then drop 1 s1 else s1);
          sign = (if negative then - 1 else 1)
      in if take 2 s2 = ''0x'' \<or> take 2 s2 = ''0X''
         then (let ds = takeWhile is_hex_digit (drop 2 s2)
               in if ds = [] then NaN else Num (sign * of_nat (hexadecimal ds)))
         else (let ds = takeWhile is_digit s2
               in if ds = [] then NaN else Num (sign * of_nat (decimal ds))))"

section \<open>The duration formatter\<close>

text \<open>\<open>parseTime\<close> of \<open>src/index.ts\<close>; the earlier revision has the same text.\<close>

definition parseTime :: "real \<Rightarrow> string" where
  "parseTime days =
     (let years = \<lfloor>days / 365\<rfloor>;
          months = \<lfloor>js_rem days 365 / 30\<rfloor>;
          remainingDays = \<lfloor>js_rem days 30\<rfloor>;
          timeFormat = '''';
          timeFormat = (if years > 0
             then timeFormat @ string_of_int years @ '' year'' @ (if years > 1 then ''s'' else '''') @ '' ''
             else timeFormat);
          timeFormat = (if months > 0
             then timeFormat @ string_of_int months @ '' month'' @ (if months > 1 then ''s'' else '''') @ '' ''
             else timeFormat);
          timeFormat = (if remainingDays > 0
             then timeFormat @ string_of_int remainingDays @ '' day'' @ (if remainingDays > 1 then ''s'' else '''') @ '' ''
             else timeFormat);
          timeFormat = (if timeFormat = '''' then ''0 days'' else timeFormat)
      in trim timeFormat)"

section \<open>The retrying client\<close>

text \<open>
  What an operation throws: an error object with a name, a message and, for an HTTP
  failure, the response with its status and its \<open>retry-after\<close> header (a response always
  carries its headers, as the responses of the API client do).
\<close>

record http_response =
  status :: nat
  retry_after :: "string option"

record error =
  error_name :: string
  message :: string
  response :: "http_response option"

definition Error :: "string \<Rightarrow> error" where
  "Error msg = \<lparr>error_name = ''Error'', message = msg, response = None\<rparr>"


text \<open>
  What the program does to the outside is kept as a list of events: log lines, the
  suspensions of \<open>setTimeout\<close> with the delay they were given, the pages asked of the
  branch listing and the webhook posts.
\<close>

datatype event =
    Info string
  | Warning string
  | Sleep number
  | ListBranches nat
  | Post string string

text \<open>
  The three ways out of \<open>makeRequestWithRetry\<close>: the \<open>return\<close> of the value, the
  \<open>throw error\<close> of the last attempt inside the loop, and the \<open>throw\<close> after the loop.
\<close>

datatype 'a exit = Returned 'a | Rethrown error | Exhausted

definition outcome :: "'a exit \<Rightarrow> error + 'a" where
  "outcome x =
     (case x of Returned v \<Rightarrow> Inr v
      | Rethrown e \<Rightarrow> Inl e
      | Exhausted \<Rightarrow> Inl (Error ''Max retries exceeded''))"

text \<open>The rest of the \<open>catch\<close> block once the attempt is not the last one: the log line
  and the wait.\<close>

definition backoff :: "error \<Rightarrow> nat \<Rightarrow> event list" where
  "backoff e attempt =
     (let rate_limited =
            (case response e of
               Some r \<Rightarrow> if status r = 403
                         then (case retry_after r of
                                 Some retryAfter \<Rightarrow> if retryAfter \<noteq> '''' then Some retryAfter else None
                               | None \<Rightarrow> None)
                         else None
             | None \<Rightarrow> None)
      in case rate_limited of
           Some retryAfter \<Rightarrow>
             (let waitTime = times_num (parseInt retryAfter) (Num 1000)
              in [Info (''Rate limited. Waiting '' @ retryAfter @ '' seconds before retry...''),
                  Sleep waitTime])
         | None \<Rightarrow>
             (let waitTime = Num (2 ^ attempt * 1000)
              in [Info (''Request failed. Retrying in '' @ string_of_nat (2 ^ attempt) @ '' seconds...''),
                  Sleep waitTime]))"

text \<open>
  An asynchronous operation is given by what its successive invocations settle to:
  \<open>request k\<close> is the outcome of the \<open>k\<close>-th call. The loop runs \<open>attempt\<close> from 1 to
  \<open>maxRetries\<close> and calls the operation once per round.
\<close>

function retry_loop :: "(nat \<Rightarrow> error + 'a) \<Rightarrow> nat \<Rightarrow> nat \<Rightarrow> event list \<times> 'a exit" where
  "retry_loop request maxRetries attempt =
     (if attempt \<le> maxRetries then
        (case request attempt of
           Inr v \<Rightarrow> ([], Returned v)
         | Inl e \<Rightarrow>
             if attempt = maxRetries then ([], Rethrown e)
             else (let (evs, x) = retry_loop request maxRetries (attempt + 1)
                   in (backoff e attempt @ evs, x)))
      else ([], Exhausted))"
  by pat_completeness auto
termination
  by (relation "measure (\<lambda>(request, maxRetries, attempt). Suc maxRetries - attempt)") auto

declare retry_loop.simps [simp del]

definition makeRequestWithRetry :: "(nat \<Rightarrow> error + 'a) \<Rightarrow> nat \<Rightarrow> event list \<times> 'a exit" where
  "makeRequestWithRetry request maxRetries = retry_loop request maxRetries 1"

text \<open>The waits, the pages asked for, the warnings and the posts among the events.\<close>

definition sleeps :: "event list \<Rightarrow> number list" where
  "sleeps evs = concat (map (\<lambda>ev. case ev of Sleep w \<Rightarrow> [w] | _ \<Rightarrow> []) evs)"



definition posts_of :: "event list \<Rightarrow> (string \<times> string) list" where
  "posts_of evs = concat (map (\<lambda>ev. case ev of Post u p \<Rightarrow> [(u, p)] | _ \<Rightarrow> []) evs)"

section \<open>Branch enumeration\<close>

record branch =
  name :: string
  commit_sha :: string




text \<open>
  The earlier revision (\<open>do ... while (response.data.length === 100)\<close>): each page is
  requested once, with no retry, and a failed request is thrown to the caller.
\<close>

partial_function (option) part000_getAllBranches_loop ::
  "(nat \<Rightarrow> nat \<Rightarrow> error + branch list) \<Rightarrow> nat \<Rightarrow> branch list \<Rightarrow> event list
     \<Rightarrow> (event list \<times> (error + branch list)) option" where
  "part000_getAllBranches_loop listBranches page branches evs =
     (case listBranches page 1 of
        Inl e \<Rightarrow> Some (evs @ [ListBranches page], Inl e)
      | Inr data \<Rightarrow>
          if length data = 100
          then part000_getAllBranches_loop listBranches (page + 1) (branches @ data)
                 (evs @ [ListBranches page])
          else Some (evs @ [ListBranches page], Inr (branches @ data)))"

declare part000_getAllBranches_loop.simps [code]

definition part000_getAllBranches ::
  "(nat \<Rightarrow> nat \<Rightarrow> error + branch list) \<Rightarrow> (event list \<times> (error + branch list)) option" where
  "part000_getAllBranches listBranches = part000_getAllBranches_loop listBranches 1 [] []"


section \<open>Mention resolution\<close>

text \<open>\<open>String.prototype.split\<close> with a one-character separator.\<close>

fun split :: "char \<Rightarrow> string \<Rightarrow> string list" where
  "split sep [] = [[]]"
| "split sep (c # cs) =
     (if c = sep then [] # split sep cs
      else (case split sep cs of w # ws \<Rightarrow> (c # w) # ws | [] \<Rightarrow> [[c]]))"

text \<open>
  \<open>Object.fromEntries\<close> on arrays of strings: the first element is the key, the second
  the value, \<open>undefined\<close> (here \<open>None\<close>) when there is none; a later entry replaces an
  earlier one with the same key. Objects are modelled by their own properties, in
  insertion order; the properties every object inherits (a key such as \<open>constructor\<close>)
  are outside the model.
\<close>

definition fromEntries :: "string list list \<Rightarrow> (string \<times> string option) list" where
  "fromEntries entries =
     foldl (\<lambda>obj entry.
              AList.update (case entry of [] \<Rightarrow> ''undefined'' | k # _ \<Rightarrow> k)
                (case entry of _ # v # _ \<Rightarrow> Some v | _ \<Rightarrow> None) obj)
       [] entries"

text \<open>The operand \<open>slackUsers[gitUsername]\<close> of \<open>+\<close> converted to a string.\<close>

definition property_toString :: "string option option \<Rightarrow> string" where
  "property_toString p = (case p of Some (Some v) \<Rightarrow> v | _ \<Rightarrow> ''undefined'')"

text \<open>
  \<open>getSlackUsername\<close>, with the value of the environment variable \<open>SLACK_USERS\<close> as an
  argument. In \<open>a + b || c\<close> the operator \<open>+\<close> binds tighter than \<open>||\<close>: the left operand
  of \<open>||\<close> is the whole concatenation, and \<open>c\<close> is taken when that string is empty.
\<close>

definition getSlackUsername :: "string option \<Rightarrow> string \<Rightarrow> string" where
  "getSlackUsername users gitUsername =
     (let slackUsers =
            fromEntries (map (split CHR '':'')
              (split CHR '','' (case users of None \<Rightarrow> '''' | Some s \<Rightarrow> s)));
          mention = property_toString (map_of slackUsers gitUsername) @ '' ('' @ gitUsername @ '')''
      in if mention \<noteq> '''' then mention else ''@'' @ gitUsername)"

section \<open>Classification and grouping\<close>

text \<open>
  A date string is identified with what \<open>new Date\<close> makes of it: an invalid date, or an
  instant in milliseconds. The empty string is an invalid date.
\<close>

datatype date_string = Malformed | Instant int

definition getTime :: "date_string \<Rightarrow> number" where
  "getTime d = (case d of Malformed \<Rightarrow> NaN | Instant t \<Rightarrow> Num (of_int t))"

text \<open>The fields read from a \<open>getCommit\<close> response: \<open>data.commit.committer?.date\<close> and
  \<open>data.author?.login\<close>, \<open>None\<close> when the optional chain yields \<open>undefined\<close>.\<close>

record commit_info =
  committer_date :: "date_string option"
  author_login :: "string option"

record stale_branch =
  branch_name :: string
  daysSinceLastCommit :: real

type_synonym groups = "(string \<times> stale_branch list) list"

text \<open>\<open>login || "UNKNOWN"\<close>: an absent or empty login is replaced.\<close>

definition or_UNKNOWN :: "string option \<Rightarrow> string" where
  "or_UNKNOWN login =
     (case login of Some l \<Rightarrow> if l \<noteq> '''' then l else ''UNKNOWN'' | None \<Rightarrow> ''UNKNOWN'')"

text \<open>The group is created when the author has none yet, then the record is appended.\<close>

definition push_stale :: "string \<Rightarrow> stale_branch \<Rightarrow> groups \<Rightarrow> groups" where
  "push_stale author r staleBranchesByAuthor =
     (let obj = (if map_of staleBranchesByAuthor author = None
                 then staleBranchesByAuthor @ [(author, [])] else staleBranchesByAuthor)
      in map (\<lambda>(a, rs). if a = author then (a, rs @ [r]) else (a, rs)) obj)"

text \<open>The records of all groups, each with the author of its group.\<close>

definition entries :: "groups \<Rightarrow> (string \<times> stale_branch) list" where
  "entries staleBranchesByAuthor =
     concat (map (\<lambda>(author, rs). map (Pair author) rs) staleBranchesByAuthor)"

text \<open>
  What the program is run with: its two inputs as the runner hands them over, the two
  environment variables, the clock, the answers of the API (\<open>getCommit branch k\<close> is the
  outcome of the \<open>k\<close>-th request for the tip of that branch; \<open>getBranch\<close>, used by the
  earlier revision only, yields the author login of the branch), the order in which the
  tasks of each batch settle, and the answer of the webhook to a post (\<open>Some\<close> error
  when the post fails).
\<close>

record env =
  days_before_stale :: string
  slack_webhook_url :: string
  STALE_BRANCH_TOKEN :: "string option"
  SLACK_USERS :: "string option"
  now :: int
  listBranches :: "nat \<Rightarrow> nat \<Rightarrow> error + branch list"
  getCommit :: "branch \<Rightarrow> nat \<Rightarrow> error + commit_info"
  getBranch :: "string \<Rightarrow> error + string option"
  completion :: "nat \<Rightarrow> nat list"
  post :: "string \<Rightarrow> string \<Rightarrow> error option"





definition settles :: "env \<Rightarrow> branch \<Rightarrow> bool" where
  "settles e b = (\<not> isl (outcome (snd (makeRequestWithRetry (getCommit e b) 5))))"

text \<open>An order of settling: each choice picks one of the tasks still pending, so every
  list of choices gives a permutation of the batch, and every permutation is given by one.\<close>

fun permute :: "nat list \<Rightarrow> 'a list \<Rightarrow> 'a list" where
  "permute cs [] = []"
| "permute [] xs = xs"
| "permute (c # cs) xs =
     (let i = c mod length xs in xs ! i # permute cs (take i xs @ drop (Suc i) xs))"




section \<open>Sorting, formatting and notification\<close>

text \<open>
  \<open>Array.prototype.sort\<close> is stable, and the comparator \<open>b - a\<close> on finite numbers puts
  the larger first. The lists are sorted in place, so the order of the authors does not
  change.
\<close>

definition sort_groups :: "groups \<Rightarrow> groups" where
  "sort_groups staleBranchesByAuthor =
     map (\<lambda>(author, rs). (author, sort_key (\<lambda>r. - daysSinceLastCommit r) rs))
       staleBranchesByAuthor"

text \<open>The order of \<open>for ... in\<close>: the keys that are array indices in ascending numeric
  order, then the other keys in insertion order.\<close>

definition is_array_index :: "string \<Rightarrow> bool" where
  "is_array_index k =
     (k \<noteq> [] \<and> list_all is_digit k \<and> (k = ''0'' \<or> hd k \<noteq> CHR ''0'')
      \<and> decimal k < 4294967295)"

definition for_in :: "(string \<times> 'a) list \<Rightarrow> (string \<times> 'a) list" where
  "for_in obj =
     sort_key (\<lambda>(k, v). decimal k) (filter (\<lambda>(k, v). is_array_index k) obj)
       @ filter (\<lambda>(k, v). \<not> is_array_index k) obj"

definition digest :: "string option \<Rightarrow> string \<Rightarrow> stale_branch list \<Rightarrow> string" where
  "digest users author rs =
     getSlackUsername users author @ '' you have '' @ string_of_nat (length rs)
       @ '' stale branches:'' @ [CHR 0x0A]
       @ concat (map (\<lambda>staleBranch.
            ''`'' @ branch_name staleBranch @ ''` - stale by ''
              @ parseTime (daysSinceLastCommit staleBranch) @ [CHR 0x0A]) rs)
       @ [CHR 0x0A, CHR 0x0A] @ ''===================='' @ [CHR 0x0A, CHR 0x0A]"

text \<open>\<open>JSON.stringify\<close> of an object with the one property \<open>text\<close>, a string.\<close>

definition hex_char :: "nat \<Rightarrow> char" where
  "hex_char d = ''0123456789abcdef'' ! d"

definition json_escape :: "char \<Rightarrow> string" where
  "json_escape c =
     (if c = CHR 0x22 then [CHR 0x5C, CHR 0x22]
      else if c = CHR 0x5C then [CHR 0x5C, CHR 0x5C]
      else if c = CHR 0x08 then [CHR 0x5C, CHR ''b'']
      else if c = CHR 0x0C then [CHR 0x5C, CHR ''f'']
      else if c = CHR 0x0A then [CHR 0x5C, CHR ''n'']
      else if c = CHR 0x0D then [CHR 0x5C, CHR ''r'']
      else if c = CHR 0x09 then [CHR 0x5C, CHR ''t'']
      else if (of_char c :: nat) < 32
           then [CHR 0x5C, CHR ''u'', CHR ''0'', CHR ''0'',
                 hex_char (of_char c div 16), hex_char (of_char c mod 16)]
      else [c])"

definition JSON_stringify :: "string \<Rightarrow> string" where
  "JSON_stringify text_field =
     ''{'' @ [CHR 0x22] @ ''text'' @ [CHR 0x22] @ '':'' @ [CHR 0x22]
       @ concat (map json_escape text_field) @ [CHR 0x22] @ ''}''"

text \<open>The notification loop over the groups in \<open>for ... in\<close> order: a post that fails
  throws, which ends the loop.\<close>

fun notify :: "(string \<Rightarrow> string \<Rightarrow> error option) \<Rightarrow> string \<Rightarrow> string option \<Rightarrow> groups
    \<Rightarrow> event list \<times> error option" where
  "notify webhook slackWebhookUrl users [] = ([], None)"
| "notify webhook slackWebhookUrl users ((author, rs) # rest) =
     (let payload = JSON_stringify (digest users author rs)
      in case webhook slackWebhookUrl payload of
           Some err \<Rightarrow> ([Post slackWebhookUrl payload], Some err)
         | None \<Rightarrow>
             (let (evs, r) = notify webhook slackWebhookUrl users rest
              in (Post slackWebhookUrl payload # evs, r)))"

section \<open>The run\<close>

text \<open>\<open>core.getInput\<close> with \<open>required: true\<close>: an input that is not supplied throws,
  any other is trimmed.\<close>

definition getInput :: "string \<Rightarrow> string \<Rightarrow> error + string" where
  "getInput inputName val =
     (if val = '''' then Inl (Error (''Input required and not supplied: '' @ inputName))
      else Inr (trim val))"

record result =
  events :: "event list"
  failed :: "string option"


subsection \<open>The earlier revision\<close>

text \<open>
  \<open>getDaysSinceLastCommit\<close>: one request with no retry; \<open>-1\<close> stands for a commit with
  no committer date, and a date that does not parse gives \<open>NaN\<close>.
\<close>

definition part000_getDaysSinceLastCommit :: "env \<Rightarrow> branch \<Rightarrow> error + number" where
  "part000_getDaysSinceLastCommit e b =
     (case STALE_BRANCH_TOKEN e of
        None \<Rightarrow> Inl (Error ''STALE_BRANCH_TOKEN environment variable is not defined'')
      | Some token \<Rightarrow>
          (case getCommit e b 1 of
             Inl err \<Rightarrow> Inl err
           | Inr commitResponse \<Rightarrow>
               (case committer_date commitResponse of
                  None \<Rightarrow> Inr (Num (- 1))
                | Some commitDate \<Rightarrow>
                    Inr (divide_num (minus_num (Num (of_int (now e))) (getTime commitDate))
                           (1000 * 60 * 60 * 24)))))"

text \<open>\<open>Promise.all\<close>: the values in the order of the list, or a rejection (the first of
  the list stands for the one that settles first).\<close>

fun promise_all :: "(error + 'a) list \<Rightarrow> error + 'a list" where
  "promise_all [] = Inr []"
| "promise_all (Inl err # ps) = Inl err"
| "promise_all (Inr v # ps) =
     (case promise_all ps of Inl err \<Rightarrow> Inl err | Inr vs \<Rightarrow> Inr (v # vs))"

definition part000_staleBranches ::
  "env \<Rightarrow> number \<Rightarrow> branch list \<Rightarrow> error + (branch \<times> real) list" where
  "part000_staleBranches e daysBeforeStale staleBranchesResponse =
     (case promise_all (map (\<lambda>b. case part000_getDaysSinceLastCommit e b of
                                     Inl err \<Rightarrow> Inl err | Inr days \<Rightarrow> Inr (b, days))
                          staleBranchesResponse) of
        Inl err \<Rightarrow> Inl err
      | Inr branches \<Rightarrow>
          Inr (concat (map (\<lambda>(b, days). case days of
                               Num d \<Rightarrow> if ge (Num d) daysBeforeStale then [(b, d)] else []
                             | NaN \<Rightarrow> []) branches)))"

fun part000_group :: "env \<Rightarrow> (branch \<times> real) list \<Rightarrow> groups \<Rightarrow> error + groups" where
  "part000_group e [] staleBranchesByAuthor = Inr staleBranchesByAuthor"
| "part000_group e ((b, days) # rest) staleBranchesByAuthor =
     (case getBranch e (name b) of
        Inl err \<Rightarrow> Inl err
      | Inr login \<Rightarrow>
          part000_group e rest
            (push_stale (or_UNKNOWN login) \<lparr>branch_name = name b, daysSinceLastCommit = days\<rparr>
               staleBranchesByAuthor))"

definition part000_classify :: "env \<Rightarrow> number \<Rightarrow> branch list \<Rightarrow> error + groups" where
  "part000_classify e daysBeforeStale staleBranchesResponse =
     (case part000_staleBranches e daysBeforeStale staleBranchesResponse of
        Inl err \<Rightarrow> Inl err
      | Inr staleBranches \<Rightarrow> part000_group e staleBranches [])"

definition part000_run :: "env \<Rightarrow> result option" where
  "part000_run e =
     (case getInput ''days-before-stale'' (days_before_stale e) of
        Inl err \<Rightarrow> Some \<lparr>events = [], failed = Some (message err)\<rparr>
      | Inr days \<Rightarrow>
     (let daysBeforeStale = parseInt days in
      case getInput ''slack-webhook-url'' (slack_webhook_url e) of
        Inl err \<Rightarrow> Some \<lparr>events = [], failed = Some (message err)\<rparr>
      | Inr slackWebhookUrl \<Rightarrow>
     (case STALE_BRANCH_TOKEN e of
        None \<Rightarrow> Some \<lparr>events = [],
                      failed = Some ''STALE_BRANCH_TOKEN environment variable is not defined''\<rparr>
      | Some token \<Rightarrow>
     (case part000_getAllBranches (listBranches e) of
        None \<Rightarrow> None
      | Some (fetch_evs, Inl err) \<Rightarrow> Some \<lparr>events = fetch_evs, failed = Some (message err)\<rparr>
      | Some (fetch_evs, Inr staleBranchesResponse) \<Rightarrow>
          (case part000_classify e daysBeforeStale staleBranchesResponse of
             Inl err \<Rightarrow> Some \<lparr>events = fetch_evs, failed = Some (message err)\<rparr>
           | Inr staleBranchesByAuthor \<Rightarrow>
               (let sorted = sort_groups staleBranchesByAuthor;
                    (posts, err) = notify (post e) slackWebhookUrl (SLACK_USERS e) (for_in sorted)
                in Some \<lparr>events = fetch_evs @ posts,
                          failed = map_option message err\<rparr>))))))"

section \<open>Example inputs\<close>

text \<open>An operation that is rate limited once, with a hint of seven seconds, fails once
  more and then succeeds; and one that always fails.\<close>

definition rate_limited :: error where
  "rate_limited =
     \<lparr>error_name = ''HttpError'', message = ''rate limit exceeded'',
      response = Some \<lparr>status = 403, retry_after = Some ''7''\<rparr>\<rparr>"

definition flaky :: "nat \<Rightarrow> error + nat" where
  "flaky k = (if k = 1 then Inl rate_limited else if k = 2 then Inl (Error ''socket hang up'') else Inr 42)"

definition down :: "nat \<Rightarrow> error + nat" where
  "down k = Inl (Error ''socket hang up'')"






text \<open>Three stale branches of one author, aged 5, 40 and 12 days.\<close>

definition three_ages :: groups where
  "three_ages =
     [(''carol'', [\<lparr>branch_name = ''a'', daysSinceLastCommit = 5\<rparr>,
                   \<lparr>branch_name = ''b'', daysSinceLastCommit = 40\<rparr>,
                   \<lparr>branch_name = ''c'', daysSinceLastCommit = 12\<rparr>])]"




section \<open>Evaluation and auxiliary lemmas\<close>

lemma string_of_nat_small: "n < 10 \<Longrightarrow> string_of_nat n = [digit_char n]"
  by (subst string_of_nat.simps) simp

lemma string_of_nat_large:
  "10 \<le> n \<Longrightarrow> string_of_nat n = string_of_nat (n div 10) @ [digit_char (n mod 10)]"
  by (subst string_of_nat.simps) simp

lemmas eval_simps =
  js_rem_def trunc_def string_of_int_def string_of_nat_small string_of_nat_large
  digit_char_def trim_def is_space_def











subsection \<open>The retry loop\<close>

lemma retry_loop_returned:
  "attempt \<le> m \<Longrightarrow> request attempt = Inr v \<Longrightarrow> retry_loop request m attempt = ([], Returned v)"
  by (subst retry_loop.simps) simp

lemma retry_loop_rethrown:
  "request m = Inl e \<Longrightarrow> retry_loop request m m = ([], Rethrown e)"
  by (subst retry_loop.simps) simp

lemma retry_loop_again:
  "attempt < m \<Longrightarrow> request attempt = Inl e \<Longrightarrow>
     retry_loop request m attempt =
       (backoff e attempt @ fst (retry_loop request m (Suc attempt)),
        snd (retry_loop request m (Suc attempt)))"
  by (subst retry_loop.simps) (simp add: case_prod_beta)


lemma retry_loop_exit:
  "attempt \<le> m \<Longrightarrow>
     (\<exists>v k. attempt \<le> k \<and> k \<le> m \<and> request k = Inr v
          \<and> (\<forall>j. attempt \<le> j \<and> j < k \<longrightarrow> isl (request j))
          \<and> snd (retry_loop request m attempt) = Returned v)
     \<or> (\<exists>e. request m = Inl e \<and> (\<forall>j. attempt \<le> j \<and> j \<le> m \<longrightarrow> isl (request j))
          \<and> snd (retry_loop request m attempt) = Rethrown e)"
proof (induction "m - attempt" arbitrary: attempt)
  case 0
  then have eq: "attempt = m" by simp
  show ?case
  proof (cases "request m")
    case (Inl e)
    then show ?thesis using eq by (auto simp: retry_loop_rethrown)
  next
    case (Inr v)
    then have "snd (retry_loop request m m) = Returned v" by (simp add: retry_loop_returned)
    then show ?thesis using eq Inr by auto
  qed
next
  case (Suc d)
  then have lt: "attempt < m" by simp
  show ?case
  proof (cases "request attempt")
    case (Inr v)
    then have "snd (retry_loop request m attempt) = Returned v"
      using lt by (simp add: retry_loop_returned)
    then show ?thesis using Inr lt by (intro disjI1 exI[of _ v] exI[of _ attempt]) auto
  next
    case (Inl e)
    have step: "snd (retry_loop request m attempt) = snd (retry_loop request m (Suc attempt))"
      using lt Inl by (simp add: retry_loop_again)
    have d: "d = m - Suc attempt" using Suc.hyps(2) by simp
    have le: "Suc attempt \<le> m" using lt by simp
    have low: "\<And>j. attempt \<le> j \<Longrightarrow> j = attempt \<or> Suc attempt \<le> j" by auto
    from Suc.hyps(1)[OF d le] show ?thesis
    proof
      assume "\<exists>v k. Suc attempt \<le> k \<and> k \<le> m \<and> request k = Inr v
          \<and> (\<forall>j. Suc attempt \<le> j \<and> j < k \<longrightarrow> isl (request j))
          \<and> snd (retry_loop request m (Suc attempt)) = Returned v"
      then obtain v k where k: "Suc attempt \<le> k" "k \<le> m" "request k = Inr v"
          "\<forall>j. Suc attempt \<le> j \<and> j < k \<longrightarrow> isl (request j)"
          "snd (retry_loop request m (Suc attempt)) = Returned v" by blast
      have "\<forall>j. attempt \<le> j \<and> j < k \<longrightarrow> isl (request j)"
        using k(4) Inl low by (metis sum.disc(1))
      then show ?thesis using k step by (intro disjI1 exI[of _ v] exI[of _ k]) auto
    next
      assume "\<exists>e. request m = Inl e \<and> (\<forall>j. Suc attempt \<le> j \<and> j \<le> m \<longrightarrow> isl (request j))
          \<and> snd (retry_loop request m (Suc attempt)) = Rethrown e"
      then obtain e' where e': "request m = Inl e'"
          "\<forall>j. Suc attempt \<le> j \<and> j \<le> m \<longrightarrow> isl (request j)"
          "snd (retry_loop request m (Suc attempt)) = Rethrown e'" by blast
      have "\<forall>j. attempt \<le> j \<and> j \<le> m \<longrightarrow> isl (request j)"
        using e'(2) Inl low by (metis sum.disc(1))
      then show ?thesis using e' step by (intro disjI2 exI[of _ e']) auto
    qed
  qed
qed


lemma sleeps_Nil: "sleeps [] = []"
  by (simp add: sleeps_def)





subsection \<open>The paging loops\<close>

































subsection \<open>Groups\<close>



lemma entries_Cons: "entries ((a, rs) # g) = map (Pair a) rs @ entries g"
  by (simp add: entries_def)







subsection \<open>The task of one branch\<close>







subsection \<open>Batches\<close>
















lemma permute_complete: "mset ys = mset xs \<Longrightarrow> \<exists>cs. permute cs xs = ys"
proof (induction ys arbitrary: xs)
  case Nil
  then have "xs = []" by simp
  then have "permute [] xs = []" by simp
  then show ?case by (rule exI)
next
  case (Cons y ys)
  have "y \<in> set xs" using Cons.prems by (metis list.set_intros(1) set_mset_mset)
  then obtain i where i: "i < length xs" "xs ! i = y" by (auto simp: in_set_conv_nth)
  let ?rest = "take i xs @ drop (Suc i) xs"
  have "mset xs = {#y#} + mset ?rest"
    using id_take_nth_drop[OF i(1)] i(2) by (metis add_mset_add_single mset.simps(2) mset_append union_mset_add_mset_right add.commute)
  then have "mset ys = mset ?rest" using Cons.prems by simp
  then obtain cs where cs: "permute cs ?rest = ys" using Cons.IH by blast
  have ne: "xs \<noteq> []" using i(1) by auto
  then obtain x xs' where x: "xs = x # xs'" by (cases xs) auto
  have "permute (i # cs) xs = xs ! i # permute cs ?rest"
    using i(1) unfolding x by (simp add: Let_def)
  then have "permute (i # cs) xs = y # ys" using cs i(2) by simp
  then show ?case by (rule exI)
qed

subsection \<open>Sorting and the order of the authors\<close>

lemma keys_sort_groups: "map fst (sort_groups g) = map fst g"
  by (induction g) (auto simp: sort_groups_def)

lemma mset_entries_sort_groups: "mset (entries (sort_groups g)) = mset (entries g)"
proof (induction g)
  case Nil
  then show ?case by (simp add: sort_groups_def)
next
  case (Cons x g)
  obtain a rs where x: "x = (a, rs)" by (cases x)
  have "mset (map (Pair a) (sort_key (\<lambda>r. - daysSinceLastCommit r) rs)) = mset (map (Pair a) rs)"
    by simp
  then show ?case using Cons x by (simp add: sort_groups_def entries_Cons)
qed

lemma sort_groups_member:
  "(a, rs) \<in> set (sort_groups g) \<Longrightarrow>
     \<exists>rs0. (a, rs0) \<in> set g \<and> rs = sort_key (\<lambda>r. - daysSinceLastCommit r) rs0"
  by (auto simp: sort_groups_def)

lemma sorted_descending:
  "sorted_wrt (\<lambda>x y. daysSinceLastCommit y \<le> daysSinceLastCommit x)
     (sort_key (\<lambda>r. - daysSinceLastCommit r) rs)"
proof -
  have "sorted (map (\<lambda>r. - daysSinceLastCommit r) (sort_key (\<lambda>r. - daysSinceLastCommit r) rs))"
    by (rule sorted_sort_key)
  then show ?thesis by (simp add: sorted_map)
qed



lemma mset_for_in: "mset (for_in obj) = mset obj"
  by (simp add: for_in_def)

lemma set_for_in: "set (for_in obj) = set obj"
  using mset_for_in[of obj] by (metis set_mset_mset)

lemma length_for_in: "length (for_in obj) = length obj"
  using mset_for_in[of obj] by (metis size_mset)


subsection \<open>The notification loop\<close>

lemma posts_of_Nil: "posts_of [] = []"
  by (simp add: posts_of_def)

lemma posts_of_Cons:
  "posts_of (ev # evs) = (case ev of Post u p \<Rightarrow> [(u, p)] | _ \<Rightarrow> []) @ posts_of evs"
  by (simp add: posts_of_def)

lemma posts_of_append: "posts_of (xs @ ys) = posts_of xs @ posts_of ys"
  by (simp add: posts_of_def)

lemma posts_of_warnings: "\<forall>ev \<in> set evs. \<exists>w. ev = Warning w \<Longrightarrow> posts_of evs = []"
  by (induction evs) (auto simp: posts_of_Nil posts_of_Cons)





subsection \<open>Which branches appear in the groups\<close>








lemma settles_completion: "settles (e\<lparr>completion := c\<rparr>) b = settles e b"
  by (simp add: settles_def)


subsection \<open>The earlier revision\<close>











subsection \<open>The groups handed to the notifier\<close>





subsection \<open>Evaluating a run\<close>




subsection \<open>The example runs\<close>







section \<open>The duration formatter and the mention\<close>

text \<open>
  Claim C2. The duration formatter is to decompose a number of days into years
  (\<open>d div 365\<close>), months (\<open>(d mod 365) div 30\<close>) and remaining days (\<open>(d mod 365) mod 30\<close>), so
  that 400 days read "1 year 1 month 5 days". The code takes the remaining days as
  \<open>days % 30\<close>, not as the remainder left by the months: 0, 1 and 30 days are formatted as
  the claim says, and 400 days are formatted as "1 year 1 month 10 days".
\<close>

theorem parseTime_400_days:
  "parseTime 0 = ''0 days'' \<and> parseTime 1 = ''1 day'' \<and> parseTime 30 = ''1 month''
   \<and> parseTime 400 = ''1 year 1 month 10 days''
   \<and> parseTime 400 \<noteq> ''1 year 1 month 5 days''"
  by (simp add: parseTime_def eval_simps)

text \<open>
  Claim C3. A login with an entry in the mapping is to be rendered as the mapped handle
  followed by the login in parentheses, and a login with no entry as \<open>@\<close> followed by the
  login. The code renders "alice" with the mapping "alice:@al" as "@al (alice)"; for a
  login with no entry the concatenation is made first, with \<open>undefined\<close> as its left
  operand, so "bob" is rendered as "undefined (bob)", and no login at all is rendered as
  \<open>@\<close> followed by the login.
\<close>

theorem getSlackUsername_no_entry:
  "getSlackUsername (Some ''alice:@al'') ''alice'' = ''@al (alice)''
   \<and> getSlackUsername (Some ''alice:@al'') ''bob'' = ''undefined (bob)''
   \<and> getSlackUsername None ''bob'' = ''undefined (bob)''
   \<and> (\<forall>users login. getSlackUsername users login \<noteq> ''@'' @ login)"
proof -
  have a: "getSlackUsername (Some ''alice:@al'') ''alice'' = ''@al (alice)''"
    by (simp add: getSlackUsername_def fromEntries_def property_toString_def)
  have b: "getSlackUsername (Some ''alice:@al'') ''bob'' = ''undefined (bob)''"
    by (simp add: getSlackUsername_def fromEntries_def property_toString_def)
  have c: "getSlackUsername None ''bob'' = ''undefined (bob)''"
    by (simp add: getSlackUsername_def fromEntries_def property_toString_def)
  have d: "getSlackUsername users login \<noteq> ''@'' @ login" for users login
  proof
    assume eq: "getSlackUsername users login = ''@'' @ login"
    obtain p where p: "getSlackUsername users login = p @ '' ('' @ login @ '')''"
      by (auto simp: getSlackUsername_def Let_def)
    have "length (getSlackUsername users login) = length p + length login + 3"
      unfolding p by simp
    moreover have "length (getSlackUsername users login) = length login + 1"
      unfolding eq by simp
    ultimately show False by simp
  qed
  show ?thesis using a b c d by blast
qed

section \<open>The retrying client: claims\<close>



text \<open>
  Claim C10. For a maximum of at least one attempt the call ends in one of two ways: it
  returns the value of the first attempt that succeeds, or it rethrows the error of the
  last attempt, all attempts having failed. The \<open>throw\<close> after the loop is not reached.
\<close>

theorem makeRequestWithRetry_exits:
  "1 \<le> maxRetries \<Longrightarrow>
     snd (makeRequestWithRetry request maxRetries) \<noteq> Exhausted \<and>
     ((\<exists>v k. 1 \<le> k \<and> k \<le> maxRetries \<and> request k = Inr v
          \<and> (\<forall>j. 1 \<le> j \<and> j < k \<longrightarrow> isl (request j))
          \<and> snd (makeRequestWithRetry request maxRetries) = Returned v)
      \<or> (\<exists>e. request maxRetries = Inl e
          \<and> (\<forall>j. 1 \<le> j \<and> j \<le> maxRetries \<longrightarrow> isl (request j))
          \<and> snd (makeRequestWithRetry request maxRetries) = Rethrown e))"
proof -
  assume "1 \<le> maxRetries"
  from retry_loop_exit[OF this, of request]
  have exits:
    "(\<exists>v k. 1 \<le> k \<and> k \<le> maxRetries \<and> request k = Inr v
          \<and> (\<forall>j. 1 \<le> j \<and> j < k \<longrightarrow> isl (request j))
          \<and> snd (makeRequestWithRetry request maxRetries) = Returned v)
      \<or> (\<exists>e. request maxRetries = Inl e
          \<and> (\<forall>j. 1 \<le> j \<and> j \<le> maxRetries \<longrightarrow> isl (request j))
          \<and> snd (makeRequestWithRetry request maxRetries) = Rethrown e)"
    unfolding makeRequestWithRetry_def .
  then have "snd (makeRequestWithRetry request maxRetries) \<noteq> Exhausted"
    by (elim disjE exE conjE) simp_all
  with exits show ?thesis by (rule conjI[rotated])
qed

theorem makeRequestWithRetry_exits_witness:
  "(1::nat) \<le> 5 \<and> snd (makeRequestWithRetry flaky 5) \<noteq> Exhausted
   \<and> snd (makeRequestWithRetry down 1) = Rethrown (Error ''socket hang up'')"
proof -
  have one: "(1::nat) \<le> 5" by simp
  have "snd (makeRequestWithRetry flaky 5) \<noteq> Exhausted"
    using makeRequestWithRetry_exits[OF one, of flaky] by simp
  moreover have "snd (makeRequestWithRetry down 1) = Rethrown (Error ''socket hang up'')"
    using makeRequestWithRetry_exits[of 1 down] by (auto simp: down_def)
  ultimately show ?thesis by simp
qed

section \<open>Branch enumeration: claims\<close>





section \<open>Grouping, sorting and notification: claims\<close>

text \<open>
  Claim C7. Whatever groups have been collected, after the sorting step the records of
  every author are in non-increasing order of days since the last commit; this holds for
  the groups in the order in which the notifier goes through them. The sorting step
  keeps the authors and the records of each. Records aged 5, 40 and 12 days come out in
  the order 40, 12, 5.
\<close>

theorem sort_groups_descending:
  "(\<forall>(author, rs) \<in> set (sort_groups g).
      sorted_wrt (\<lambda>a b. daysSinceLastCommit b \<le> daysSinceLastCommit a) rs)
   \<and> (\<forall>(author, rs) \<in> set (for_in (sort_groups g)).
      sorted_wrt (\<lambda>a b. daysSinceLastCommit b \<le> daysSinceLastCommit a) rs)
   \<and> map fst (sort_groups g) = map fst g
   \<and> mset (entries (sort_groups g)) = mset (entries g)
   \<and> sort_groups [(author, [\<lparr>branch_name = n1, daysSinceLastCommit = 5\<rparr>,
                             \<lparr>branch_name = n2, daysSinceLastCommit = 40\<rparr>,
                             \<lparr>branch_name = n3, daysSinceLastCommit = 12\<rparr>])]
       = [(author, [\<lparr>branch_name = n2, daysSinceLastCommit = 40\<rparr>,
                    \<lparr>branch_name = n3, daysSinceLastCommit = 12\<rparr>,
                    \<lparr>branch_name = n1, daysSinceLastCommit = 5\<rparr>])]"
proof -
  have s: "sorted_wrt (\<lambda>a b. daysSinceLastCommit b \<le> daysSinceLastCommit a) rs"
    if "(author, rs) \<in> set (sort_groups g)" for author rs
    using sort_groups_member[OF that] sorted_descending by auto
  have "\<forall>(author, rs) \<in> set (sort_groups g).
      sorted_wrt (\<lambda>a b. daysSinceLastCommit b \<le> daysSinceLastCommit a) rs"
    using s by blast
  moreover from this have "\<forall>(author, rs) \<in> set (for_in (sort_groups g)).
      sorted_wrt (\<lambda>a b. daysSinceLastCommit b \<le> daysSinceLastCommit a) rs"
    by (simp only: set_for_in)
  moreover have "sort_groups [(author, [\<lparr>branch_name = n1, daysSinceLastCommit = 5\<rparr>,
                             \<lparr>branch_name = n2, daysSinceLastCommit = 40\<rparr>,
                             \<lparr>branch_name = n3, daysSinceLastCommit = 12\<rparr>])]
       = [(author, [\<lparr>branch_name = n2, daysSinceLastCommit = 40\<rparr>,
                    \<lparr>branch_name = n3, daysSinceLastCommit = 12\<rparr>,
                    \<lparr>branch_name = n1, daysSinceLastCommit = 5\<rparr>])]"
    by (simp add: sort_groups_def)
  ultimately show ?thesis
    using keys_sort_groups[of g] mset_entries_sort_groups[of g] by blast
qed

theorem sort_groups_descending_witness:
  "sort_groups three_ages
     = [(''carol'', [\<lparr>branch_name = ''b'', daysSinceLastCommit = 40\<rparr>,
                    \<lparr>branch_name = ''c'', daysSinceLastCommit = 12\<rparr>,
                    \<lparr>branch_name = ''a'', daysSinceLastCommit = 5\<rparr>])]
   \<and> (''carol'', [\<lparr>branch_name = ''b'', daysSinceLastCommit = 40\<rparr>,
                   \<lparr>branch_name = ''c'', daysSinceLastCommit = 12\<rparr>,
                   \<lparr>branch_name = ''a'', daysSinceLastCommit = 5\<rparr>]) \<in> set (sort_groups three_ages)
   \<and> sorted_wrt (\<lambda>a b. daysSinceLastCommit b \<le> daysSinceLastCommit a)
        [\<lparr>branch_name = ''b'', daysSinceLastCommit = 40\<rparr>,
         \<lparr>branch_name = ''c'', daysSinceLastCommit = 12\<rparr>,
         \<lparr>branch_name = ''a'', daysSinceLastCommit = 5\<rparr>]"
proof -
  let ?sorted = "[\<lparr>branch_name = ''b'', daysSinceLastCommit = 40\<rparr>,
                  \<lparr>branch_name = ''c'', daysSinceLastCommit = 12\<rparr>,
                  \<lparr>branch_name = ''a'', daysSinceLastCommit = 5\<rparr>]"
  note T = sort_groups_descending[of three_ages "''carol''" "''a''" "''b''" "''c''"]
  have eq: "sort_groups three_ages = [(''carol'', ?sorted)]"
    using T[THEN conjunct2, THEN conjunct2, THEN conjunct2, THEN conjunct2]
    by (simp add: three_ages_def)
  then have mem: "(''carol'', ?sorted) \<in> set (sort_groups three_ages)" by simp
  have "sorted_wrt (\<lambda>a b. daysSinceLastCommit b \<le> daysSinceLastCommit a) ?sorted"
    using T[THEN conjunct1] mem by blast
  then show ?thesis using eq mem by blast
qed









end
